theory Spec2Isabelle
  imports
    Main
    "HOL-Library.Multiset"
    "HOL-Library.AList"
    "HOL-Library.Char_ord"
    "HOL-Library.List_Lexorder"
begin

section \<open>Build asset summaries of a Go build (package buildassets)\<close>

text \<open>
  A shallow embedding of \<^verbatim>\<open>buildmodel/buildassets/buildassets.go\<close>. Go strings are byte
  sequences and are modelled as \<^typ>\<open>string\<close>; the order on strings is the bytewise
  lexicographic one (\<open>Char_ord\<close> and \<open>List_Lexorder\<close>), which is what Go's \<^verbatim>\<open><\<close> on
  strings computes.
\<close>

subsection \<open>The functions of Go's standard library that the package calls\<close>

text \<open>\<^verbatim>\<open>strings.HasPrefix\<close>, \<^verbatim>\<open>strings.HasSuffix\<close>, \<^verbatim>\<open>strings.TrimPrefix\<close> and
  \<^verbatim>\<open>strings.TrimSuffix\<close>.\<close>

definition HasPrefix :: "string \<Rightarrow> string \<Rightarrow> bool" where
  "HasPrefix s prefix = (length prefix \<le> length s \<and> take (length prefix) s = prefix)"

definition HasSuffix :: "string \<Rightarrow> string \<Rightarrow> bool" where
  "HasSuffix s suffix =
     (length suffix \<le> length s \<and> drop (length s - length suffix) s = suffix)"

definition TrimPrefix :: "string \<Rightarrow> string \<Rightarrow> string" where
  "TrimPrefix s prefix = (if HasPrefix s prefix then drop (length prefix) s else s)"

definition TrimSuffix :: "string \<Rightarrow> string \<Rightarrow> string" where
  "TrimSuffix s suffix =
     (if HasSuffix s suffix then take (length s - length suffix) s else s)"

text \<open>\<^verbatim>\<open>strings.LastIndex(s, sep)\<close> for a separator of one byte, which is how the package
  calls it: the index of the last occurrence of the byte, or \<open>-1\<close>.\<close>

fun LastIndex :: "string \<Rightarrow> char \<Rightarrow> int" where
  "LastIndex [] sep = - 1"
| "LastIndex (c # s) sep =
     (let r = LastIndex s sep in
      if 0 \<le> r then r + 1 else if c = sep then 0 else - 1)"

text \<open>\<^verbatim>\<open>strings.Split(s, sep)\<close> for a separator of one byte: the pieces of \<open>s\<close> between
  the occurrences of the byte, one more than there are occurrences (so never none).\<close>

fun Split :: "string \<Rightarrow> char \<Rightarrow> string list" where
  "Split [] sep = [[]]"
| "Split (c # s) sep =
     (if c = sep then [] # Split s sep
      else (case Split s sep of [] \<Rightarrow> [[c]] | p # ps \<Rightarrow> (c # p) # ps))"

text \<open>\<^verbatim>\<open>strings.Fields\<close> splits around runs of white space as \<^verbatim>\<open>unicode.IsSpace\<close> defines
  it. The string is UTF-8: the six ASCII spaces are one byte each, U+0085 and U+00A0 are
  two bytes, and U+1680, U+2000 to U+200A, U+2028, U+2029, U+202F, U+205F and U+3000 are
  three. A lead byte is never a continuation byte, so a decoder that walks the string
  from the left (as Go's \<^verbatim>\<open>range\<close> does, taking an invalid byte as one rune that is not a
  space) finds a white space rune exactly where its bytes stand.\<close>

definition asciiSpace :: "char \<Rightarrow> bool" where
  "asciiSpace c =
     (c = CHR 0x09 \<or> c = CHR 0x0A \<or> c = CHR 0x0B \<or> c = CHR 0x0C \<or> c = CHR 0x0D
      \<or> c = CHR 0x20)"

definition spaces2 :: "string list" where
  "spaces2 = [[CHR 0xC2, CHR 0x85], [CHR 0xC2, CHR 0xA0]]"

definition spaces3 :: "string list" where
  "spaces3 =
     [[CHR 0xE1, CHR 0x9A, CHR 0x80],
      [CHR 0xE2, CHR 0x80, CHR 0x80], [CHR 0xE2, CHR 0x80, CHR 0x81],
      [CHR 0xE2, CHR 0x80, CHR 0x82], [CHR 0xE2, CHR 0x80, CHR 0x83],
      [CHR 0xE2, CHR 0x80, CHR 0x84], [CHR 0xE2, CHR 0x80, CHR 0x85],
      [CHR 0xE2, CHR 0x80, CHR 0x86], [CHR 0xE2, CHR 0x80, CHR 0x87],
      [CHR 0xE2, CHR 0x80, CHR 0x88], [CHR 0xE2, CHR 0x80, CHR 0x89],
      [CHR 0xE2, CHR 0x80, CHR 0x8A],
      [CHR 0xE2, CHR 0x80, CHR 0xA8], [CHR 0xE2, CHR 0x80, CHR 0xA9],
      [CHR 0xE2, CHR 0x80, CHR 0xAF],
      [CHR 0xE2, CHR 0x81, CHR 0x9F],
      [CHR 0xE3, CHR 0x80, CHR 0x80]]"

text \<open>The number of bytes of the white space rune that \<open>s\<close> starts with, 0 when it
  starts with none.\<close>

definition spaceWidth :: "string \<Rightarrow> nat" where
  "spaceWidth s =
     (if s \<noteq> [] \<and> asciiSpace (hd s) then 1
      else if List.member spaces2 (take 2 s) then 2
      else if List.member spaces3 (take 3 s) then 3
      else 0)"

text \<open>\<open>FieldsFrom field s\<close>: the fields of \<open>s\<close>, \<open>field\<close> being the bytes of the field
  that is open where \<open>s\<close> starts (empty when none is).\<close>

fun FieldsFrom :: "string \<Rightarrow> string \<Rightarrow> string list" where
  "FieldsFrom field [] = (if field = [] then [] else [field])"
| "FieldsFrom field (c # s) =
     (if spaceWidth (c # s) = 0 then FieldsFrom (field @ [c]) s
      else (if field = [] then [] else [field])
           @ FieldsFrom [] (drop (spaceWidth (c # s) - 1) s))"

definition Fields :: "string \<Rightarrow> string list" where
  "Fields s = FieldsFrom [] s"

text \<open>\<^verbatim>\<open>bufio.Scanner\<close> with its default split function \<^verbatim>\<open>ScanLines\<close> and its default
  buffer: the first \<^verbatim>\<open>Scan\<close> yields the bytes before the first newline, without one
  trailing carriage return; input without a newline is one line, and empty input has no
  line (\<^verbatim>\<open>Text\<close> is then empty). The buffer holds \<^verbatim>\<open>MaxScanTokenSize\<close> bytes: filled
  without a newline in it, the scanner stops with \<^verbatim>\<open>ErrTooLong\<close>.\<close>

definition MaxScanTokenSize :: nat where
  "MaxScanTokenSize = 64 * 1024"

definition dropCR :: "string \<Rightarrow> string" where
  "dropCR data = (if data \<noteq> [] \<and> last data = CHR 0x0D then butlast data else data)"

definition ErrTooLong :: string where
  "ErrTooLong = ''bufio.Scanner: token too long''"

definition ScanFirstLine :: "string \<Rightarrow> string + string" where
  "ScanFirstLine data =
     (if CHR 0x0A \<in> set (take MaxScanTokenSize data)
      then Inr (dropCR (takeWhile (\<lambda>c. c \<noteq> CHR 0x0A) data))
      else if MaxScanTokenSize \<le> length data then Inl ErrTooLong
      else Inr (dropCR data))"

subsection \<open>Data\<close>

text \<open>Modelled from the spec: the types \<^verbatim>\<open>Arch\<close> and \<^verbatim>\<open>ArchEnv\<close> of the package
  \<^verbatim>\<open>buildmodel/dockerversions\<close>, which \<^verbatim>\<open>buildassets.go\<close> imports. The spec's
  ArchEntry is \<open>{url, sha256, platform: {os, arch}}\<close>, under the JSON names \<^verbatim>\<open>url\<close>,
  \<^verbatim>\<open>sha256\<close>, \<^verbatim>\<open>env.GOOS\<close> and \<^verbatim>\<open>env.GOARCH\<close>; these are the fields the package
  writes. \<open>zeroArch\<close> is the value of \<^verbatim>\<open>&dockerversions.Arch{}\<close>.\<close>

record ArchEnv =
  GOARCH :: string
  GOOS :: string

record Arch =
  Env :: ArchEnv
  SHA256 :: string
  URL :: string

definition zeroArch :: Arch where
  "zeroArch = \<lparr>Env = \<lparr>GOARCH = [], GOOS = []\<rparr>, SHA256 = [], URL = []\<rparr>"

record BuildAssets =
  Branch :: string
  BuildID :: string
  Version :: string
  Arches :: "Arch list"

text \<open>The fields \<^verbatim>\<open>Branch\<close> and \<^verbatim>\<open>BuildID\<close> of \<^verbatim>\<open>BuildResultsDirectoryInfo\<close> are
  \<open>InfoBranch\<close> and \<open>InfoBuildID\<close> here: a record field is a constant, and \<open>BuildAssets\<close>
  has the two names already.\<close>

record BuildResultsDirectoryInfo =
  SourceDir :: string
  ArtifactsDir :: string
  DestinationURL :: string
  InfoBranch :: string
  InfoBuildID :: string

text \<open>The errors the package returns. Those about a file wrap the error of the operating
  system (a text here) with the path of the file; the error of \<^verbatim>\<open>os.ReadDir\<close> is
  returned as it is.\<close>

datatype error =
  UnableToOpenVersionFile string string
| UnableToReadVersionFile string string
| ReadDirError string
| UnableToReadChecksumFile string string

text \<open>A run of Go code either completes with a value or panics. The one panic of this
  package is an index out of range: the index and the length of the slice.\<close>

datatype panic = IndexOutOfRange nat nat

datatype 'a run = Done 'a | Panic panic

text \<open>\<open>xs[i]\<close> on a slice.\<close>

definition index :: "'a list \<Rightarrow> nat \<Rightarrow> 'a run" where
  "index xs i = (if i < length xs then Done (xs ! i) else Panic (IndexOutOfRange i (length xs)))"

subsection \<open>The environment of a call\<close>

text \<open>What opening and reading the file at a path gives: there is no such file, it
  cannot be opened, it opens and cannot be read, or its bytes.\<close>

datatype osFile = NotExist | OpenError string | ReadError string | Content string

record DirEntry =
  Name :: string
  IsDir :: bool

text \<open>
  \<^item> \<open>path_Join\<close> is \<^verbatim>\<open>path.Join\<close> on two elements (it joins with a slash and cleans the
    result), a pure function that is taken as given;
  \<^item> \<open>os_file\<close> and \<open>os_ReadDir\<close> are the file system: a file by its path, and the entries
    of a directory (or the error of listing it). \<^verbatim>\<open>os.ReadDir\<close> returns the entries in the
    order of their names; nothing here depends on it, and any list is a listing;
  \<^item> \<open>map_range\<close> is the order in which a \<^verbatim>\<open>range\<close> loop visits a map, which Go leaves
    unspecified and randomises from run to run: from the entries in the order of their
    insertion to the entries in the order of the visit;
  \<^item> \<open>sort_Slice\<close> is \<^verbatim>\<open>sort.Slice\<close>, which sorts by the \<open>less\<close> function it is given
    and is not guaranteed to be stable.
\<close>

record env =
  path_Join :: "string \<Rightarrow> string \<Rightarrow> string"
  os_file :: "string \<Rightarrow> osFile"
  os_ReadDir :: "string \<Rightarrow> string + DirEntry list"
  map_range :: "(string \<times> Arch) list \<Rightarrow> (string \<times> Arch) list"
  sort_Slice :: "(Arch \<Rightarrow> Arch \<Rightarrow> bool) \<Rightarrow> Arch list \<Rightarrow> Arch list"

text \<open>\<^verbatim>\<open>os.ReadFile\<close>: the bytes of the file, or an error.\<close>

definition os_ReadFile :: "env \<Rightarrow> string \<Rightarrow> string + string" where
  "os_ReadFile w path =
     (case os_file w path of
        NotExist \<Rightarrow> Inl ''no such file or directory''
      | OpenError e \<Rightarrow> Inl e
      | ReadError e \<Rightarrow> Inl e
      | Content data \<Rightarrow> Inr data)"

text \<open>What Go's documentation promises of the two: a \<^verbatim>\<open>range\<close> loop visits every entry
  of the map once, and \<^verbatim>\<open>sort.Slice\<close> permutes the slice so that no element is less than
  one before it.\<close>

definition range_visits_each_once :: "env \<Rightarrow> bool" where
  "range_visits_each_once w = (\<forall>m. mset (map_range w m) = mset m)"

definition sorts_by :: "(Arch \<Rightarrow> Arch \<Rightarrow> bool) \<Rightarrow> env \<Rightarrow> bool" where
  "sorts_by lt w =
     (\<forall>xs. mset (sort_Slice w lt xs) = mset xs
        \<and> sorted_wrt (\<lambda>x y. \<not> lt y x) (sort_Slice w lt xs))"

subsection \<open>The package\<close>

definition GetDockerRepoTargetBranch :: "BuildAssets \<Rightarrow> string" where
  "GetDockerRepoTargetBranch b =
     (if Branch b = ''main'' \<or> HasPrefix (Branch b) ''release-branch.'' then ''microsoft/main''
      else if HasPrefix (Branch b) ''dev/official/'' then Branch b
      else [])"

definition archiveSuffixes :: "string list" where
  "archiveSuffixes = [''.tar.gz'', ''.zip'']"

definition checksumSuffix :: string where
  "checksumSuffix = ''.sha256''"

text \<open>\<open>getVersion\<close> returns Go's pair of a string and an error (\<open>None\<close> is \<^verbatim>\<open>nil\<close>).\<close>

definition getVersion :: "env \<Rightarrow> string \<Rightarrow> string \<Rightarrow> string \<times> error option" where
  "getVersion w path defaultVersion =
     (case os_file w path of
        NotExist \<Rightarrow> (defaultVersion, None)
      | OpenError e \<Rightarrow> ([], Some (UnableToOpenVersionFile path e))
      | ReadError e \<Rightarrow> ([], Some (UnableToReadVersionFile path e))
      | Content data \<Rightarrow>
          (case ScanFirstLine data of
             Inl e \<Rightarrow> ([], Some (UnableToReadVersionFile path e))
           | Inr text \<Rightarrow> (text, None)))"

text \<open>The map \<^verbatim>\<open>archMap\<close> from names to pointers is an association list with one pair for
  each key, in the order of insertion. \<open>getOrCreateArch\<close> returns the map with the name
  registered; the pointer it returns in the source is the name, read with \<open>deref\<close> and
  written with \<open>AList.update\<close>.\<close>

type_synonym archMap = "(string \<times> Arch) list"

definition getOrCreateArch :: "archMap \<Rightarrow> string \<Rightarrow> archMap" where
  "getOrCreateArch archMap name =
     (case map_of archMap name of
        Some arch \<Rightarrow> archMap
      | None \<Rightarrow> archMap @ [(name, zeroArch)])"

definition deref :: "archMap \<Rightarrow> string \<Rightarrow> Arch" where
  "deref archMap name = (case map_of archMap name of Some arch \<Rightarrow> arch | None \<Rightarrow> zeroArch)"

text \<open>The loop over \<^verbatim>\<open>archiveSuffixes\<close>, for a file that is no checksum file: the first
  suffix that the name ends with decides, and a name with none of them changes nothing.\<close>

fun forSuffixes ::
  "BuildResultsDirectoryInfo \<Rightarrow> string \<Rightarrow> archMap \<Rightarrow> string list \<Rightarrow> archMap run" where
  "forSuffixes b name archMap [] = Done archMap"
| "forSuffixes b name archMap (suffix # suffixes) =
     (if HasSuffix name suffix then
        (let extensionless = TrimSuffix name suffix;
             osArch = drop (nat (LastIndex extensionless CHR ''.'' + 1)) extensionless;
             osArchParts = Split osArch CHR ''-''
         in case index osArchParts 0 of
              Panic p \<Rightarrow> Panic p
            | Done goOS \<Rightarrow>
               (case index osArchParts 1 of
                  Panic p \<Rightarrow> Panic p
                | Done goArch \<Rightarrow>
                    (let archMap = getOrCreateArch archMap name;
                         a = deref archMap name
                     in Done (AList.update name
                          (a\<lparr>URL := DestinationURL b @ ''/'' @ name,
                             Env := \<lparr>GOARCH = goArch, GOOS = goOS\<rparr>\<rparr>) archMap))))
      else forSuffixes b name archMap suffixes)"

text \<open>The body of the loop over the entries of the directory: \<open>Done (Inr archMap)\<close> goes
  on to the next entry, \<open>Done (Inl err)\<close> is the \<^verbatim>\<open>return nil, err\<close> of the source. The
  line that the source prints for every file is left out.\<close>

definition forEntry ::
  "env \<Rightarrow> BuildResultsDirectoryInfo \<Rightarrow> archMap \<Rightarrow> DirEntry \<Rightarrow> (error + archMap) run" where
  "forEntry w b archMap e =
     (if IsDir e then Done (Inr archMap)
      else
        (let fullPath = path_Join w (ArtifactsDir b) (Name e) in
         if HasSuffix (Name e) checksumSuffix then
           (let name = TrimSuffix (Name e) checksumSuffix;
                archMap = getOrCreateArch archMap name;
                a = deref archMap name
            in case os_ReadFile w fullPath of
                 Inl err \<Rightarrow> Done (Inl (UnableToReadChecksumFile fullPath err))
               | Inr checksumLine \<Rightarrow>
                  (case index (Fields checksumLine) 0 of
                     Panic p \<Rightarrow> Panic p
                   | Done checksum \<Rightarrow>
                       Done (Inr (AList.update name (a\<lparr>SHA256 := checksum\<rparr>) archMap))))
         else
           (case forSuffixes b (Name e) archMap archiveSuffixes of
              Panic p \<Rightarrow> Panic p
            | Done archMap \<Rightarrow> Done (Inr archMap))))"

fun forEntries ::
  "env \<Rightarrow> BuildResultsDirectoryInfo \<Rightarrow> archMap \<Rightarrow> DirEntry list \<Rightarrow> (error + archMap) run" where
  "forEntries w b archMap [] = Done (Inr archMap)"
| "forEntries w b archMap (e # entries) =
     (case forEntry w b archMap e of
        Panic p \<Rightarrow> Panic p
      | Done (Inl err) \<Rightarrow> Done (Inl err)
      | Done (Inr archMap) \<Rightarrow> forEntries w b archMap entries)"

text \<open>The \<open>less\<close> function that the package gives to \<^verbatim>\<open>sort.Slice\<close>.\<close>

definition lessURL :: "Arch \<Rightarrow> Arch \<Rightarrow> bool" where
  "lessURL x y = (URL x < URL y)"

text \<open>The statement \<^verbatim>\<open>if b.ArtifactsDir != "" { ... }\<close> with the loop in it.\<close>

definition scanArtifactsDir ::
  "env \<Rightarrow> BuildResultsDirectoryInfo \<Rightarrow> archMap \<Rightarrow> (error + archMap) run" where
  "scanArtifactsDir w b archMap =
     (if ArtifactsDir b \<noteq> [] then
        (case os_ReadDir w (ArtifactsDir b) of
           Inl err \<Rightarrow> Done (Inl (ReadDirError err))
         | Inr entries \<Rightarrow> forEntries w b archMap entries)
      else Done (Inr archMap))"

text \<open>\<open>CreateSummary\<close> returns Go's pair of a pointer to the summary and an error, or
  panics.\<close>

definition CreateSummary ::
  "env \<Rightarrow> BuildResultsDirectoryInfo \<Rightarrow> (BuildAssets option \<times> error option) run" where
  "CreateSummary w b =
     (case getVersion w (path_Join w (SourceDir b) ''VERSION'') ''main'' of
        (goVersion, Some err) \<Rightarrow> Done (None, Some err)
      | (goVersion, None) \<Rightarrow>
         (case getVersion w (path_Join w (SourceDir b) ''MICROSOFT_REVISION'') ''1'' of
            (goRevision, Some err) \<Rightarrow> Done (None, Some err)
          | (goRevision, None) \<Rightarrow>
             (let goVersion = TrimPrefix goVersion ''go'' in
              case scanArtifactsDir w b [] of
                Panic p \<Rightarrow> Panic p
              | Done (Inl err) \<Rightarrow> Done (None, Some err)
              | Done (Inr archMap) \<Rightarrow>
                 (let arches = map snd (map_range w archMap);
                      arches = sort_Slice w lessURL arches
                  in Done (Some \<lparr>Branch = InfoBranch b, BuildID = InfoBuildID b,
                                  Version = goVersion @ ''-'' @ goRevision,
                                  Arches = arches\<rparr>, None)))))"

subsection \<open>Notions of the specification\<close>

text \<open>The parts that the name of an archive gives for the operating system and the
  architecture: the name without its archive suffix, what follows its last dot, split at
  the dashes.\<close>

definition osArchPartsOf :: "string \<Rightarrow> string \<Rightarrow> string list" where
  "osArchPartsOf name suffix =
     (let extensionless = TrimSuffix name suffix
      in Split (drop (nat (LastIndex extensionless CHR ''.'' + 1)) extensionless) CHR ''-'')"





text \<open>The hard errors of the specification's taxonomy, as conditions on the file system:
  a marker file that exists and cannot be read, an artifacts directory that cannot be
  listed, and a checksum file in it that cannot be read.\<close>

definition markerUnreadable :: "env \<Rightarrow> string \<Rightarrow> bool" where
  "markerUnreadable w path =
     (case os_file w path of
        NotExist \<Rightarrow> False
      | OpenError e \<Rightarrow> True
      | ReadError e \<Rightarrow> True
      | Content data \<Rightarrow> isl (ScanFirstLine data))"




subsection \<open>Environments to run the package in\<close>

text \<open>\<^verbatim>\<open>insertionSortLessFunc\<close> of Go's package \<^verbatim>\<open>sort\<close>, which is all that \<^verbatim>\<open>sort.Slice\<close>
  runs on a short slice (of at most 12 elements since Go 1.19, of at most 6 before): each
  element in turn moves to the left for as long as it is less than the element before it.
  \<open>moveLeft\<close> has the elements to the left of the moving one in reverse, the nearest
  first.\<close>

fun moveLeft :: "('a \<Rightarrow> 'a \<Rightarrow> bool) \<Rightarrow> 'a \<Rightarrow> 'a list \<Rightarrow> 'a list" where
  "moveLeft lt x [] = [x]"
| "moveLeft lt x (y # ys) = (if lt x y then y # moveLeft lt x ys else x # y # ys)"

definition insertionSortLessFunc :: "('a \<Rightarrow> 'a \<Rightarrow> bool) \<Rightarrow> 'a list \<Rightarrow> 'a list" where
  "insertionSortLessFunc lt data = rev (foldl (\<lambda>sorted x. moveLeft lt x sorted) [] data)"

text \<open>What \<^verbatim>\<open>path.Join\<close> returns for a directory and a name that are clean already.\<close>

definition joinSlash :: "string \<Rightarrow> string \<Rightarrow> string" where
  "joinSlash dir name = dir @ ''/'' @ name"

text \<open>A file system of the listed files and directories and nothing else, with a
  \<^verbatim>\<open>range\<close> that visits a map in the order of insertion.\<close>

definition exampleEnv :: "(string \<times> osFile) list \<Rightarrow> (string \<times> DirEntry list) list \<Rightarrow> env" where
  "exampleEnv files dirs =
     \<lparr>path_Join = joinSlash,
      os_file = (\<lambda>path. case map_of files path of None \<Rightarrow> NotExist | Some f \<Rightarrow> f),
      os_ReadDir =
        (\<lambda>dir. case map_of dirs dir of
                  None \<Rightarrow> Inl ''no such file or directory''
                | Some entries \<Rightarrow> Inr entries),
      map_range = (\<lambda>m. m),
      sort_Slice = insertionSortLessFunc\<rparr>"

definition exampleInfo :: BuildResultsDirectoryInfo where
  "exampleInfo =
     \<lparr>SourceDir = ''go'', ArtifactsDir = ''artifacts'',
      DestinationURL = ''https://example.org/dl'',
      InfoBranch = ''main'', InfoBuildID = ''42''\<rparr>"

definition regularFile :: "string \<Rightarrow> DirEntry" where
  "regularFile name = \<lparr>Name = name, IsDir = False\<rparr>"

section \<open>Properties\<close>

subsection \<open>The branch of the Docker repository\<close>

lemma HasPrefix_Cons: "HasPrefix s (c # p) \<Longrightarrow> \<exists>r. s = c # r"
  by (cases s) (auto simp: HasPrefix_def)

text \<open>Claim C6: \<open>GetDockerRepoTargetBranch\<close> is a function of the branch alone: it is
  \<^verbatim>\<open>microsoft/main\<close> for \<^verbatim>\<open>main\<close> and for every branch that starts with
  \<^verbatim>\<open>release-branch.\<close>, the branch itself for every branch that starts with
  \<^verbatim>\<open>dev/official/\<close>, and the empty string for every other branch.\<close>

theorem GetDockerRepoTargetBranch_cases:
  "(Branch b = ''main'' \<longrightarrow> GetDockerRepoTargetBranch b = ''microsoft/main'')
   \<and> (HasPrefix (Branch b) ''release-branch.''
        \<longrightarrow> GetDockerRepoTargetBranch b = ''microsoft/main'')
   \<and> (HasPrefix (Branch b) ''dev/official/'' \<longrightarrow> GetDockerRepoTargetBranch b = Branch b)
   \<and> (Branch b \<noteq> ''main'' \<and> \<not> HasPrefix (Branch b) ''release-branch.''
        \<and> \<not> HasPrefix (Branch b) ''dev/official/''
        \<longrightarrow> GetDockerRepoTargetBranch b = [])
   \<and> (Branch b = Branch b' \<longrightarrow> GetDockerRepoTargetBranch b = GetDockerRepoTargetBranch b')"
  by (auto simp: GetDockerRepoTargetBranch_def dest!: HasPrefix_Cons)

theorem GetDockerRepoTargetBranch_cases_witness:
  "GetDockerRepoTargetBranch \<lparr>Branch = ''main'', BuildID = [], Version = [], Arches = []\<rparr>
     = ''microsoft/main''
   \<and> GetDockerRepoTargetBranch
        \<lparr>Branch = ''release-branch.1.20'', BuildID = [], Version = [], Arches = []\<rparr>
     = ''microsoft/main''
   \<and> GetDockerRepoTargetBranch
        \<lparr>Branch = ''dev/official/foo'', BuildID = [], Version = [], Arches = []\<rparr>
     = ''dev/official/foo''
   \<and> GetDockerRepoTargetBranch
        \<lparr>Branch = ''feature/x'', BuildID = [], Version = [], Arches = []\<rparr>
     = []"
  using
    GetDockerRepoTargetBranch_cases
      [of "\<lparr>Branch = ''main'', BuildID = [], Version = [], Arches = []\<rparr>"]
    GetDockerRepoTargetBranch_cases
      [of "\<lparr>Branch = ''release-branch.1.20'', BuildID = [], Version = [], Arches = []\<rparr>"]
    GetDockerRepoTargetBranch_cases
      [of "\<lparr>Branch = ''dev/official/foo'', BuildID = [], Version = [], Arches = []\<rparr>"]
    GetDockerRepoTargetBranch_cases
      [of "\<lparr>Branch = ''feature/x'', BuildID = [], Version = [], Arches = []\<rparr>"]
  by (simp add: HasPrefix_def)

subsection \<open>What a returned summary was computed from\<close>

lemma CreateSummary_Some:
  assumes "CreateSummary w b = Done (Some m, err)"
  obtains goVersion goRevision archMap where
    "getVersion w (path_Join w (SourceDir b) ''VERSION'') ''main'' = (goVersion, None)"
    "getVersion w (path_Join w (SourceDir b) ''MICROSOFT_REVISION'') ''1'' = (goRevision, None)"
    "scanArtifactsDir w b [] = Done (Inr archMap)"
    "m = \<lparr>Branch = InfoBranch b, BuildID = InfoBuildID b,
          Version = TrimPrefix goVersion ''go'' @ ''-'' @ goRevision,
          Arches = sort_Slice w lessURL (map snd (map_range w archMap))\<rparr>"
    "err = None"
  using assms unfolding CreateSummary_def
  by (auto split: prod.splits option.splits run.splits sum.splits simp: Let_def)

subsection \<open>The version\<close>

lemma getVersion_NotExist: "os_file w path = NotExist \<Longrightarrow> getVersion w path d = (d, None)"
  by (simp add: getVersion_def)

lemma getVersion_Content:
  "os_file w path = Content data \<Longrightarrow> ScanFirstLine data = Inr line
   \<Longrightarrow> getVersion w path d = (line, None)"
  by (simp add: getVersion_def)

text \<open>Claim C5: in a summary that \<open>CreateSummary\<close> returns, the version is \<^verbatim>\<open>main-1\<close>
  when neither marker file exists, and \<^verbatim>\<open>1.21.0-3\<close> when the first line of the file
  \<^verbatim>\<open>VERSION\<close> is \<^verbatim>\<open>go1.21.0\<close> and the first line of the file \<^verbatim>\<open>MICROSOFT_REVISION\<close> is
  \<^verbatim>\<open>3\<close>: the prefix \<^verbatim>\<open>go\<close> is dropped, and a dash joins the version and the revision.\<close>

theorem version_resolution:
  assumes "CreateSummary w b = Done (Some m, err)"
  shows "(os_file w (path_Join w (SourceDir b) ''VERSION'') = NotExist
          \<and> os_file w (path_Join w (SourceDir b) ''MICROSOFT_REVISION'') = NotExist
          \<longrightarrow> Version m = ''main-1'')
       \<and> (os_file w (path_Join w (SourceDir b) ''VERSION'') = Content version
          \<and> ScanFirstLine version = Inr ''go1.21.0''
          \<and> os_file w (path_Join w (SourceDir b) ''MICROSOFT_REVISION'') = Content revision
          \<and> ScanFirstLine revision = Inr ''3''
          \<longrightarrow> Version m = ''1.21.0-3'')"
proof -
  from assms obtain goVersion goRevision where
    v: "getVersion w (path_Join w (SourceDir b) ''VERSION'') ''main'' = (goVersion, None)" and
    r: "getVersion w (path_Join w (SourceDir b) ''MICROSOFT_REVISION'') ''1''
          = (goRevision, None)" and
    m: "Version m = TrimPrefix goVersion ''go'' @ ''-'' @ goRevision"
    by (elim CreateSummary_Some) simp
  have absent: "Version m = ''main-1''"
    if "os_file w (path_Join w (SourceDir b) ''VERSION'') = NotExist"
      and "os_file w (path_Join w (SourceDir b) ''MICROSOFT_REVISION'') = NotExist"
    using that v r m by (auto simp: getVersion_NotExist TrimPrefix_def HasPrefix_def)
  have present: "Version m = ''1.21.0-3''"
    if "os_file w (path_Join w (SourceDir b) ''VERSION'') = Content version"
      and "ScanFirstLine version = Inr ''go1.21.0''"
      and "os_file w (path_Join w (SourceDir b) ''MICROSOFT_REVISION'') = Content revision"
      and "ScanFirstLine revision = Inr ''3''"
    using that v r m by (auto simp: getVersion_Content TrimPrefix_def HasPrefix_def)
  from absent present show ?thesis by blast
qed

theorem version_resolution_witness:
  "CreateSummary (exampleEnv [] []) (exampleInfo\<lparr>ArtifactsDir := []\<rparr>)
     = Done (Some \<lparr>Branch = ''main'', BuildID = ''42'', Version = ''main-1'', Arches = []\<rparr>,
             None)
   \<and> CreateSummary
       (exampleEnv [(''go/VERSION'', Content (''go1.21.0'' @ [CHR 0x0A])),
                    (''go/MICROSOFT_REVISION'', Content (''3'' @ [CHR 0x0A]))] [])
       (exampleInfo\<lparr>ArtifactsDir := []\<rparr>)
     = Done (Some \<lparr>Branch = ''main'', BuildID = ''42'', Version = ''1.21.0-3'', Arches = []\<rparr>,
             None)"
proof -
  let ?b = "exampleInfo\<lparr>ArtifactsDir := []\<rparr>"
  let ?w1 = "exampleEnv [] []"
  let ?w2 = "exampleEnv [(''go/VERSION'', Content (''go1.21.0'' @ [CHR 0x0A])),
                    (''go/MICROSOFT_REVISION'', Content (''3'' @ [CHR 0x0A]))] []"
  let ?m1 = "\<lparr>Branch = ''main'', BuildID = ''42'', Version = ''main-1'', Arches = []\<rparr>"
  let ?m2 = "\<lparr>Branch = ''main'', BuildID = ''42'', Version = ''1.21.0-3'', Arches = []\<rparr>"
  have run1: "CreateSummary ?w1 ?b = Done (Some ?m1, None)"
    by code_simp
  have run2: "CreateSummary ?w2 ?b = Done (Some ?m2, None)"
    by (simp add: CreateSummary_def getVersion_def exampleEnv_def exampleInfo_def joinSlash_def
        ScanFirstLine_def dropCR_def MaxScanTokenSize_def TrimPrefix_def HasPrefix_def
        scanArtifactsDir_def insertionSortLessFunc_def)
  have absent: "os_file ?w1 (path_Join ?w1 (SourceDir ?b) ''VERSION'') = NotExist
      \<and> os_file ?w1 (path_Join ?w1 (SourceDir ?b) ''MICROSOFT_REVISION'') = NotExist"
    by (simp add: exampleEnv_def exampleInfo_def joinSlash_def)
  have present:
    "os_file ?w2 (path_Join ?w2 (SourceDir ?b) ''VERSION'') = Content (''go1.21.0'' @ [CHR 0x0A])
     \<and> ScanFirstLine (''go1.21.0'' @ [CHR 0x0A]) = Inr ''go1.21.0''
     \<and> os_file ?w2 (path_Join ?w2 (SourceDir ?b) ''MICROSOFT_REVISION'')
         = Content (''3'' @ [CHR 0x0A])
     \<and> ScanFirstLine (''3'' @ [CHR 0x0A]) = Inr ''3''"
    by (simp add: exampleEnv_def exampleInfo_def joinSlash_def ScanFirstLine_def dropCR_def
        MaxScanTokenSize_def)
  have "Version ?m1 = ''main-1''"
    using version_resolution [OF run1, THEN conjunct1, rule_format, OF absent] .
  moreover have "Version ?m2 = ''1.21.0-3''"
    using version_resolution [OF run2, THEN conjunct2, rule_format, OF present] .
  ultimately show ?thesis
    using run1 run2 by simp
qed

subsection \<open>The sort and the visiting order of the example environments\<close>

lemma mset_moveLeft: "mset (moveLeft lt x ys) = add_mset x (mset ys)"
  by (induction ys) auto

lemma set_moveLeft: "set (moveLeft lt x ys) = insert x (set ys)"
  by (induction ys) auto

lemma mset_foldl_moveLeft:
  "mset (foldl (\<lambda>sorted x. moveLeft lt x sorted) acc xs) = mset acc + mset xs"
  by (induction xs arbitrary: acc) (auto simp: mset_moveLeft)

lemma mset_insertionSortLessFunc: "mset (insertionSortLessFunc lt xs) = mset xs"
  by (simp add: insertionSortLessFunc_def mset_foldl_moveLeft)

lemma descending_moveLeft:
  "sorted_wrt (\<lambda>x y. \<not> lessURL x y) ys
   \<Longrightarrow> sorted_wrt (\<lambda>x y. \<not> lessURL x y) (moveLeft lessURL x ys)"
  by (induction ys) (auto simp: set_moveLeft lessURL_def)

lemma descending_foldl_moveLeft:
  "sorted_wrt (\<lambda>x y. \<not> lessURL x y) acc
   \<Longrightarrow> sorted_wrt (\<lambda>x y. \<not> lessURL x y) (foldl (\<lambda>sorted x. moveLeft lessURL x sorted) acc xs)"
  by (induction xs arbitrary: acc) (auto simp: descending_moveLeft)

lemma sorted_insertionSortLessFunc:
  "sorted_wrt (\<lambda>x y. \<not> lessURL y x) (insertionSortLessFunc lessURL xs)"
  using descending_foldl_moveLeft [of "[]" xs]
  by (simp add: insertionSortLessFunc_def sorted_wrt_rev)

lemma exampleEnv_sorts: "sorts_by lessURL (exampleEnv files dirs)"
  by (simp add: sorts_by_def exampleEnv_def mset_insertionSortLessFunc
      sorted_insertionSortLessFunc)

lemma exampleEnv_range: "range_visits_each_once (exampleEnv files dirs)"
  by (simp add: range_visits_each_once_def exampleEnv_def)

lemma sorts_by_Nil: "sorts_by lt w \<Longrightarrow> sort_Slice w lt [] = []"
  by (auto simp: sorts_by_def dest: spec [of _ "[]"])

lemma range_visits_Nil: "range_visits_each_once w \<Longrightarrow> map_range w [] = []"
  by (auto simp: range_visits_each_once_def dest: spec [of _ "[]"])

subsection \<open>The order of the entries\<close>

text \<open>Claim C7: in every summary that \<open>CreateSummary\<close> returns, the entries are in
  ascending order of their URLs, bytewise, and the entries without a URL come first. The
  hypothesis is what \<^verbatim>\<open>sort.Slice\<close> is documented to do.\<close>

theorem Arches_sorted_by_URL:
  assumes "sorts_by lessURL w" and "CreateSummary w b = Done (Some m, err)"
  shows "sorted (map URL (Arches m))
    \<and> (\<forall>i j. i < j \<and> j < length (Arches m) \<and> URL (Arches m ! j) = []
          \<longrightarrow> URL (Arches m ! i) = [])"
proof -
  from assms(2) obtain archMap where
    "Arches m = sort_Slice w lessURL (map snd (map_range w archMap))"
    by (elim CreateSummary_Some) simp
  with assms(1) have "sorted_wrt (\<lambda>x y. \<not> lessURL y x) (Arches m)"
    by (simp add: sorts_by_def)
  then have s: "sorted (map URL (Arches m))"
    by (simp add: sorted_map lessURL_def not_less)
  have "URL (Arches m ! i) = []"
    if "i < j" "j < length (Arches m)" "URL (Arches m ! j) = []" for i j
  proof -
    from s that have "map URL (Arches m) ! i \<le> map URL (Arches m) ! j"
      by (intro sorted_nth_mono) auto
    with that show ?thesis by simp
  qed
  with s show ?thesis by blast
qed

theorem Arches_sorted_by_URL_witness:
  "sorts_by lessURL
     (exampleEnv [(''artifacts/x.sha256'', Content ''0a1b'')]
        [(''artifacts'', [regularFile ''go.linux-amd64.tar.gz'',
                          regularFile ''go.windows-amd64.zip'', regularFile ''x.sha256''])])
   \<and> CreateSummary
        (exampleEnv [(''artifacts/x.sha256'', Content ''0a1b'')]
          [(''artifacts'', [regularFile ''go.linux-amd64.tar.gz'',
                            regularFile ''go.windows-amd64.zip'', regularFile ''x.sha256''])])
        exampleInfo
     = Done (Some \<lparr>Branch = ''main'', BuildID = ''42'', Version = ''main-1'',
          Arches =
            [\<lparr>Env = \<lparr>GOARCH = [], GOOS = []\<rparr>, SHA256 = ''0a1b'', URL = []\<rparr>,
             \<lparr>Env = \<lparr>GOARCH = ''amd64'', GOOS = ''linux''\<rparr>, SHA256 = [],
                URL = ''https://example.org/dl/go.linux-amd64.tar.gz''\<rparr>,
             \<lparr>Env = \<lparr>GOARCH = ''amd64'', GOOS = ''windows''\<rparr>, SHA256 = [],
                URL = ''https://example.org/dl/go.windows-amd64.zip''\<rparr>]\<rparr>, None)
   \<and> sorted [[], ''https://example.org/dl/go.linux-amd64.tar.gz'',
        ''https://example.org/dl/go.windows-amd64.zip'']"
proof -
  let ?w = "exampleEnv [(''artifacts/x.sha256'', Content ''0a1b'')]
        [(''artifacts'', [regularFile ''go.linux-amd64.tar.gz'',
                          regularFile ''go.windows-amd64.zip'', regularFile ''x.sha256''])]"
  let ?m = "\<lparr>Branch = ''main'', BuildID = ''42'', Version = ''main-1'',
     Arches =
       [\<lparr>Env = \<lparr>GOARCH = [], GOOS = []\<rparr>, SHA256 = ''0a1b'', URL = []\<rparr>,
        \<lparr>Env = \<lparr>GOARCH = ''amd64'', GOOS = ''linux''\<rparr>, SHA256 = [],
           URL = ''https://example.org/dl/go.linux-amd64.tar.gz''\<rparr>,
        \<lparr>Env = \<lparr>GOARCH = ''amd64'', GOOS = ''windows''\<rparr>, SHA256 = [],
           URL = ''https://example.org/dl/go.windows-amd64.zip''\<rparr>]\<rparr>"
  have run: "CreateSummary ?w exampleInfo = Done (Some ?m, None)"
    by code_simp
  have "sorted (map URL (Arches ?m))"
    using Arches_sorted_by_URL [OF exampleEnv_sorts run] by (rule conjunct1)
  then have "sorted [[], ''https://example.org/dl/go.linux-amd64.tar.gz'',
        ''https://example.org/dl/go.windows-amd64.zip'']"
    by simp
  with run exampleEnv_sorts show ?thesis
    by (intro conjI)
qed

subsection \<open>No artifacts directory\<close>

lemma markerUnreadable_getVersion:
  "markerUnreadable w path \<longleftrightarrow> snd (getVersion w path d) \<noteq> None"
  by (simp add: markerUnreadable_def getVersion_def split: osFile.splits sum.splits)

lemma scanArtifactsDir_empty: "ArtifactsDir b = [] \<Longrightarrow> scanArtifactsDir w b archMap = Done (Inr archMap)"
  by (simp add: scanArtifactsDir_def)

text \<open>Claim C9, as amended: when neither marker file is unreadable, \<open>CreateSummary\<close> with
  an empty \<open>ArtifactsDir\<close> does not read any directory and returns, without an error, a
  summary with no entries and with the branch, the build and the version filled in. The
  last two hypotheses are what Go documents of \<^verbatim>\<open>range\<close> and of \<^verbatim>\<open>sort.Slice\<close>.\<close>

theorem empty_ArtifactsDir:
  assumes "ArtifactsDir b = []"
    and "\<not> markerUnreadable w (path_Join w (SourceDir b) ''VERSION'')"
    and "\<not> markerUnreadable w (path_Join w (SourceDir b) ''MICROSOFT_REVISION'')"
    and "range_visits_each_once w" and "sorts_by lessURL w"
  shows "CreateSummary w b =
    Done (Some \<lparr>Branch = InfoBranch b, BuildID = InfoBuildID b,
       Version = TrimPrefix (fst (getVersion w (path_Join w (SourceDir b) ''VERSION'') ''main'')) ''go''
         @ ''-'' @ fst (getVersion w (path_Join w (SourceDir b) ''MICROSOFT_REVISION'') ''1''),
       Arches = []\<rparr>, None)"
proof -
  obtain goVersion where v:
    "getVersion w (path_Join w (SourceDir b) ''VERSION'') ''main'' = (goVersion, None)"
    using assms(2) markerUnreadable_getVersion [of w _ "''main''"]
    by (cases "getVersion w (path_Join w (SourceDir b) ''VERSION'') ''main''") auto
  obtain goRevision where r:
    "getVersion w (path_Join w (SourceDir b) ''MICROSOFT_REVISION'') ''1'' = (goRevision, None)"
    using assms(3) markerUnreadable_getVersion [of w _ "''1''"]
    by (cases "getVersion w (path_Join w (SourceDir b) ''MICROSOFT_REVISION'') ''1''") auto
  show ?thesis
    by (simp add: CreateSummary_def v r scanArtifactsDir_empty [OF assms(1)]
        range_visits_Nil [OF assms(4)] sorts_by_Nil [OF assms(5)])
qed

theorem empty_ArtifactsDir_witness:
  "ArtifactsDir (exampleInfo\<lparr>ArtifactsDir := []\<rparr>) = []
   \<and> \<not> markerUnreadable (exampleEnv [(''go/VERSION'', Content ''go1.22.1'')] []) ''go/VERSION''
   \<and> \<not> markerUnreadable (exampleEnv [(''go/VERSION'', Content ''go1.22.1'')] []) ''go/MICROSOFT_REVISION''
   \<and> os_ReadDir (exampleEnv [(''go/VERSION'', Content ''go1.22.1'')] []) [] = Inl ''no such file or directory''
   \<and> CreateSummary (exampleEnv [(''go/VERSION'', Content ''go1.22.1'')] []) (exampleInfo\<lparr>ArtifactsDir := []\<rparr>)
     = Done (Some \<lparr>Branch = ''main'', BuildID = ''42'', Version = ''1.22.1-1'', Arches = []\<rparr>, None)"
proof -
  let ?w = "exampleEnv [(''go/VERSION'', Content ''go1.22.1'')] []"
  let ?b = "exampleInfo\<lparr>ArtifactsDir := []\<rparr>"
  have a: "ArtifactsDir ?b = []" by simp
  have v: "\<not> markerUnreadable ?w (path_Join ?w (SourceDir ?b) ''VERSION'')"
    by (simp add: markerUnreadable_def exampleEnv_def exampleInfo_def joinSlash_def
        ScanFirstLine_def MaxScanTokenSize_def)
  have r: "\<not> markerUnreadable ?w (path_Join ?w (SourceDir ?b) ''MICROSOFT_REVISION'')"
    by (simp add: markerUnreadable_def exampleEnv_def exampleInfo_def joinSlash_def)
  have p: "path_Join ?w (SourceDir ?b) ''VERSION'' = ''go/VERSION''"
    "path_Join ?w (SourceDir ?b) ''MICROSOFT_REVISION'' = ''go/MICROSOFT_REVISION''"
    by (simp_all add: exampleEnv_def exampleInfo_def joinSlash_def)
  have d: "os_ReadDir ?w [] = Inl ''no such file or directory''"
    by (simp add: exampleEnv_def)
  have "CreateSummary ?w ?b
     = Done (Some \<lparr>Branch = ''main'', BuildID = ''42'', Version = ''1.22.1-1'', Arches = []\<rparr>, None)"
    unfolding empty_ArtifactsDir [OF a v r exampleEnv_range exampleEnv_sorts]
    by (simp add: getVersion_def exampleEnv_def exampleInfo_def joinSlash_def
        ScanFirstLine_def dropCR_def MaxScanTokenSize_def TrimPrefix_def HasPrefix_def)
  with a v r d show ?thesis
    unfolding p by (intro conjI)
qed

text \<open>As the claim is stated, for every call with an empty \<open>ArtifactsDir\<close>, it fails:
  the marker files are read first, and a marker file that cannot be opened ends the call
  with that error.\<close>

theorem empty_ArtifactsDir_counterexample:
  "ArtifactsDir (exampleInfo\<lparr>ArtifactsDir := []\<rparr>) = []
   \<and> CreateSummary (exampleEnv [(''go/VERSION'', OpenError ''permission denied'')] [])
        (exampleInfo\<lparr>ArtifactsDir := []\<rparr>)
      = Done (None, Some (UnableToOpenVersionFile ''go/VERSION'' ''permission denied''))"
  by code_simp

subsection \<open>An empty marker file\<close>

text \<open>Claim C10: for a marker file that exists and is empty (or whose first line is),
  \<open>getVersion\<close> returns the empty string and not the default; the default has no part in
  the result unless the file does not exist; and with an empty file \<^verbatim>\<open>VERSION\<close> and no
  file \<^verbatim>\<open>MICROSOFT_REVISION\<close> the version of a returned summary is \<^verbatim>\<open>-1\<close>.\<close>

theorem empty_marker_file:
  "(os_file w path = Content data \<and> ScanFirstLine data = Inr []
      \<longrightarrow> getVersion w path defaultVersion = ([], None))
   \<and> ScanFirstLine [] = Inr []
   \<and> (os_file w path \<noteq> NotExist
      \<longrightarrow> getVersion w path defaultVersion = getVersion w path defaultVersion')
   \<and> (os_file w (path_Join w (SourceDir b) ''VERSION'') = Content []
      \<and> os_file w (path_Join w (SourceDir b) ''MICROSOFT_REVISION'') = NotExist
      \<and> CreateSummary w b = Done (Some m, err)
      \<longrightarrow> Version m = ''-1'')"
proof -
  have e: "ScanFirstLine [] = Inr []"
    by (simp add: ScanFirstLine_def dropCR_def MaxScanTokenSize_def)
  have "Version m = ''-1''"
    if "os_file w (path_Join w (SourceDir b) ''VERSION'') = Content []"
      and "os_file w (path_Join w (SourceDir b) ''MICROSOFT_REVISION'') = NotExist"
      and "CreateSummary w b = Done (Some m, err)"
    using that(3)
  proof (rule CreateSummary_Some)
    fix goVersion goRevision archMap
    assume "getVersion w (path_Join w (SourceDir b) ''VERSION'') ''main'' = (goVersion, None)"
      and "getVersion w (path_Join w (SourceDir b) ''MICROSOFT_REVISION'') ''1'' = (goRevision, None)"
      and "m = \<lparr>Branch = InfoBranch b, BuildID = InfoBuildID b,
          Version = TrimPrefix goVersion ''go'' @ ''-'' @ goRevision,
          Arches = sort_Slice w lessURL (map snd (map_range w archMap))\<rparr>"
    with that(1,2) e show ?thesis
      by (auto simp: getVersion_def TrimPrefix_def HasPrefix_def)
  qed
  with e show ?thesis
    by (auto simp: getVersion_def split: osFile.splits)
qed

theorem empty_marker_file_witness:
  "os_file (exampleEnv [(''go/VERSION'', Content [])] []) ''go/VERSION'' = Content []
   \<and> getVersion (exampleEnv [(''go/VERSION'', Content [])] []) ''go/VERSION'' ''main'' = ([], None)
   \<and> CreateSummary (exampleEnv [(''go/VERSION'', Content [])] []) (exampleInfo\<lparr>ArtifactsDir := []\<rparr>)
     = Done (Some \<lparr>Branch = ''main'', BuildID = ''42'', Version = ''-1'', Arches = []\<rparr>, None)"
proof -
  let ?w = "exampleEnv [(''go/VERSION'', Content [])] []"
  let ?b = "exampleInfo\<lparr>ArtifactsDir := []\<rparr>"
  let ?m = "\<lparr>Branch = ''main'', BuildID = ''42'', Version = ''-1'', Arches = []\<rparr>"
  have f: "os_file ?w ''go/VERSION'' = Content []"
    by (simp add: exampleEnv_def)
  have s: "ScanFirstLine [] = Inr []"
    by (simp add: ScanFirstLine_def dropCR_def MaxScanTokenSize_def)
  have g: "getVersion ?w ''go/VERSION'' ''main'' = ([], None)"
    using empty_marker_file [of ?w "''go/VERSION''" "[]" "''main''", THEN conjunct1] f s by simp
  have run: "CreateSummary ?w ?b = Done (Some ?m, None)"
    by (simp add: CreateSummary_def getVersion_def exampleEnv_def exampleInfo_def joinSlash_def
        ScanFirstLine_def dropCR_def MaxScanTokenSize_def TrimPrefix_def HasPrefix_def
        scanArtifactsDir_def insertionSortLessFunc_def)
  from f g run show ?thesis
    by (intro conjI)
qed

subsection \<open>Checksum files without a field, archive names without two parts\<close>

lemma Fields_Nil: "Fields [] = []"
  by (simp add: Fields_def)

lemma forEntry_no_field:
  assumes "\<not> IsDir e" and "HasSuffix (Name e) checksumSuffix"
    and "os_file w (path_Join w (ArtifactsDir b) (Name e)) = Content data"
    and "Fields data = []"
  shows "forEntry w b archMap e = Panic (IndexOutOfRange 0 0)"
  using assms by (simp add: forEntry_def os_ReadFile_def index_def Let_def)

lemma Split_not_Nil: "Split s sep \<noteq> []"
  by (induction s) (auto split: list.splits)

lemma forSuffixes_one_part:
  assumes "HasSuffix name suffix" and "length (osArchPartsOf name suffix) = 1"
  shows "forSuffixes b name archMap (suffix # suffixes) = Panic (IndexOutOfRange 1 1)"
  using assms by (simp add: osArchPartsOf_def index_def Let_def Split_not_Nil)

lemma forSuffixes_more_parts:
  assumes "HasSuffix name suffix" and "2 \<le> length (osArchPartsOf name suffix)"
  shows "forSuffixes b name archMap (suffix # suffixes) =
    Done (AList.update name
      (deref (getOrCreateArch archMap name) name
         \<lparr>URL := DestinationURL b @ ''/'' @ name,
          Env := \<lparr>GOARCH = osArchPartsOf name suffix ! 1, GOOS = osArchPartsOf name suffix ! 0\<rparr>\<rparr>)
      (getOrCreateArch archMap name))"
  using assms by (simp add: osArchPartsOf_def index_def Let_def Split_not_Nil)

text \<open>Claim C1 asks for a reported error when a checksum file has no field. The code
  indexes the fields without a check (\<open>forEntry_no_field\<close>): on a directory with an archive
  and its checksum file, the file empty or of white space only, \<open>CreateSummary\<close> panics
  with an index out of range and returns nothing.\<close>

theorem checksum_without_field_panics:
  "CreateSummary
     (exampleEnv [(''artifacts/go.linux-amd64.tar.gz.sha256'', Content [])]
        [(''artifacts'', [regularFile ''go.linux-amd64.tar.gz'',
                          regularFile ''go.linux-amd64.tar.gz.sha256''])])
     exampleInfo = Panic (IndexOutOfRange 0 0)
   \<and> CreateSummary
     (exampleEnv [(''artifacts/go.linux-amd64.tar.gz.sha256'', Content [CHR 0x20, CHR 0x0A])]
        [(''artifacts'', [regularFile ''go.linux-amd64.tar.gz'',
                          regularFile ''go.linux-amd64.tar.gz.sha256''])])
     exampleInfo = Panic (IndexOutOfRange 0 0)"
  by code_simp

text \<open>Claim C2 asks for a reported error when the part of an archive name for the
  operating system and the architecture does not split into two at the dashes. The code
  takes the first two parts without a check: with one part (\<^verbatim>\<open>go.tar.gz\<close>)
  \<open>CreateSummary\<close> panics with an index out of range, and with three
  (\<^verbatim>\<open>go.linux-arm-v7.zip\<close>) it returns a summary with the architecture \<^verbatim>\<open>arm\<close>.\<close>

theorem archive_name_without_two_parts:
  "CreateSummary (exampleEnv [] [(''artifacts'', [regularFile ''go.tar.gz''])]) exampleInfo
     = Panic (IndexOutOfRange 1 1)
   \<and> CreateSummary (exampleEnv [] [(''artifacts'', [regularFile ''go.linux-arm-v7.zip''])])
       exampleInfo
     = Done (Some \<lparr>Branch = ''main'', BuildID = ''42'', Version = ''main-1'',
          Arches = [\<lparr>Env = \<lparr>GOARCH = ''arm'', GOOS = ''linux''\<rparr>, SHA256 = [],
                     URL = ''https://example.org/dl/go.linux-arm-v7.zip''\<rparr>]\<rparr>, None)"
  by code_simp

subsection \<open>Two runs on the same directory\<close>

text \<open>Claim C3 asks for the same summary from two runs on the same files, also when
  entries have the same URL. The code sorts what a \<^verbatim>\<open>range\<close> over the map gives, by URL
  alone: on a directory with two checksum files and no archive, both entries have the
  empty URL, and two runs that differ only in the order of the \<^verbatim>\<open>range\<close> (both orders
  visit every entry once) return the entries in different orders.\<close>

theorem equal_URLs_in_either_order:
  "range_visits_each_once
     (exampleEnv [(''artifacts/a.sha256'', Content ''1111''),
                  (''artifacts/b.sha256'', Content ''2222'')]
        [(''artifacts'', [regularFile ''a.sha256'', regularFile ''b.sha256''])])
   \<and> range_visits_each_once
     (exampleEnv [(''artifacts/a.sha256'', Content ''1111''),
                  (''artifacts/b.sha256'', Content ''2222'')]
        [(''artifacts'', [regularFile ''a.sha256'', regularFile ''b.sha256''])]
      \<lparr>map_range := rev\<rparr>)
   \<and> CreateSummary
     (exampleEnv [(''artifacts/a.sha256'', Content ''1111''),
                  (''artifacts/b.sha256'', Content ''2222'')]
        [(''artifacts'', [regularFile ''a.sha256'', regularFile ''b.sha256''])])
     exampleInfo
     = Done (Some \<lparr>Branch = ''main'', BuildID = ''42'', Version = ''main-1'',
          Arches = [\<lparr>Env = \<lparr>GOARCH = [], GOOS = []\<rparr>, SHA256 = ''1111'', URL = []\<rparr>,
                    \<lparr>Env = \<lparr>GOARCH = [], GOOS = []\<rparr>, SHA256 = ''2222'', URL = []\<rparr>]\<rparr>, None)
   \<and> CreateSummary
     (exampleEnv [(''artifacts/a.sha256'', Content ''1111''),
                  (''artifacts/b.sha256'', Content ''2222'')]
        [(''artifacts'', [regularFile ''a.sha256'', regularFile ''b.sha256''])]
      \<lparr>map_range := rev\<rparr>)
     exampleInfo
     = Done (Some \<lparr>Branch = ''main'', BuildID = ''42'', Version = ''main-1'',
          Arches = [\<lparr>Env = \<lparr>GOARCH = [], GOOS = []\<rparr>, SHA256 = ''2222'', URL = []\<rparr>,
                    \<lparr>Env = \<lparr>GOARCH = [], GOOS = []\<rparr>, SHA256 = ''1111'', URL = []\<rparr>]\<rparr>, None)"
proof -
  let ?w = "exampleEnv [(''artifacts/a.sha256'', Content ''1111''),
                  (''artifacts/b.sha256'', Content ''2222'')]
        [(''artifacts'', [regularFile ''a.sha256'', regularFile ''b.sha256''])]"
  have "range_visits_each_once (?w\<lparr>map_range := rev\<rparr>)"
    by (simp add: range_visits_each_once_def)
  moreover have "CreateSummary ?w exampleInfo
     = Done (Some \<lparr>Branch = ''main'', BuildID = ''42'', Version = ''main-1'',
          Arches = [\<lparr>Env = \<lparr>GOARCH = [], GOOS = []\<rparr>, SHA256 = ''1111'', URL = []\<rparr>,
                    \<lparr>Env = \<lparr>GOARCH = [], GOOS = []\<rparr>, SHA256 = ''2222'', URL = []\<rparr>]\<rparr>, None)"
    by code_simp
  moreover have "CreateSummary (?w\<lparr>map_range := rev\<rparr>) exampleInfo
     = Done (Some \<lparr>Branch = ''main'', BuildID = ''42'', Version = ''main-1'',
          Arches = [\<lparr>Env = \<lparr>GOARCH = [], GOOS = []\<rparr>, SHA256 = ''2222'', URL = []\<rparr>,
                    \<lparr>Env = \<lparr>GOARCH = [], GOOS = []\<rparr>, SHA256 = ''1111'', URL = []\<rparr>]\<rparr>, None)"
    by code_simp
  ultimately show ?thesis
    using exampleEnv_range by (intro conjI)
qed

subsection \<open>Hard errors\<close>










subsection \<open>Archives and their checksum files\<close>

subsubsection \<open>Suffixes\<close>






subsubsection \<open>The map\<close>






subsubsection \<open>What an entry of the directory does to the map\<close>



subsubsection \<open>The loop\<close>




subsubsection \<open>What the loop keeps\<close>






subsubsection \<open>One entry for an archive and its checksum file\<close>







end
